theory Spec2Isabelle
  imports Main "HOL-Library.Sublist"
begin

section \<open>Strings, runes and the library calls the processor makes\<close>

text \<open>
  A Go string is a sequence of bytes, here a \<^typ>\<open>string\<close>; \<open>len\<close> is \<^const>\<open>length\<close> and
  \<open>s[i]\<close> is a byte. The library functions of package \<open>strings\<close>, \<open>unicode\<close> and \<open>utf8\<close>
  that the processor calls read the bytes as UTF-8; they are transcribed here from the
  library's documented behaviour. A rune is a code point, a natural number.
\<close>

type_synonym rune = nat

definition RuneError :: rune where
  "RuneError = 65533"

definition byteIn :: "nat \<Rightarrow> nat \<Rightarrow> char \<Rightarrow> bool" where
  "byteIn lo hi c = (lo \<le> of_char c \<and> (of_char c :: nat) \<le> hi)"

text \<open>
  \<open>utf8.DecodeRuneInString\<close>: the first rune of the string and its width in bytes;
  \<open>(RuneError, 0)\<close> on the empty string and \<open>(RuneError, 1)\<close> on an encoding that is
  invalid, truncated, overlong, a surrogate or beyond U+10FFFF.
\<close>

fun DecodeRuneInString :: "string \<Rightarrow> rune \<times> nat" where
  "DecodeRuneInString [] = (RuneError, 0)"
| "DecodeRuneInString (c0 # t) =
     (let b0 = (of_char c0 :: nat) in
      if b0 < 128 then (b0, 1)
      else if 194 \<le> b0 \<and> b0 \<le> 223 then
        (case t of
           c1 # _ \<Rightarrow>
             if byteIn 128 191 c1 then ((b0 mod 32) * 64 + of_char c1 mod 64, 2)
             else (RuneError, 1)
         | _ \<Rightarrow> (RuneError, 1))
      else if 224 \<le> b0 \<and> b0 \<le> 239 then
        (case t of
           c1 # c2 # _ \<Rightarrow>
             if byteIn (if b0 = 224 then 160 else 128) (if b0 = 237 then 159 else 191) c1
                \<and> byteIn 128 191 c2
             then ((b0 mod 16) * 4096 + (of_char c1 mod 64) * 64 + of_char c2 mod 64, 3)
             else (RuneError, 1)
         | _ \<Rightarrow> (RuneError, 1))
      else if 240 \<le> b0 \<and> b0 \<le> 244 then
        (case t of
           c1 # c2 # c3 # _ \<Rightarrow>
             if byteIn (if b0 = 240 then 144 else 128) (if b0 = 244 then 143 else 191) c1
                \<and> byteIn 128 191 c2 \<and> byteIn 128 191 c3
             then ((b0 mod 8) * 262144 + (of_char c1 mod 64) * 4096
                   + (of_char c2 mod 64) * 64 + of_char c3 mod 64, 4)
             else (RuneError, 1)
         | _ \<Rightarrow> (RuneError, 1))
      else (RuneError, 1))"

text \<open>\<open>utf8.RuneStart\<close>: the byte is not a continuation byte \<open>10xxxxxx\<close>.\<close>

definition RuneStart :: "char \<Rightarrow> bool" where
  "RuneStart c = (\<not> byteIn 128 191 c)"

text \<open>
  The backwards scan of \<open>utf8.DecodeLastRuneInString\<close>:
  \<open>for start--; start >= lim; start-- { if RuneStart(s[start]) { break } }\<close> followed by
  \<open>if start < 0 { start = 0 }\<close>. The argument is \<open>start\<close> before the decrement.
\<close>

fun scanBack :: "string \<Rightarrow> nat \<Rightarrow> nat \<Rightarrow> nat" where
  "scanBack s 0 lim = 0"
| "scanBack s (Suc n) lim =
     (if n < lim then n else if RuneStart (s ! n) then n else scanBack s n lim)"

definition DecodeLastRuneInString :: "string \<Rightarrow> rune \<times> nat" where
  "DecodeLastRuneInString s =
     (let end = length s in
      if end = 0 then (RuneError, 0)
      else
        let r = (of_char (s ! (end - 1)) :: nat) in
        if r < 128 then (r, 1)
        else
          let lim = end - 4;
              start = scanBack s (end - 1) lim;
              (r', size) = DecodeRuneInString (drop start s)
          in if start + size \<noteq> end then (RuneError, 1) else (r', size))"

text \<open>\<open>unicode.IsSpace\<close>: the Latin-1 spaces and the code points with property White_Space.\<close>

definition IsSpace :: "rune \<Rightarrow> bool" where
  "IsSpace r =
     (r = 9 \<or> r = 10 \<or> r = 11 \<or> r = 12 \<or> r = 13 \<or> r = 32 \<or> r = 133 \<or> r = 160
      \<or> r = 5760 \<or> (8192 \<le> r \<and> r \<le> 8202) \<or> r = 8232 \<or> r = 8233 \<or> r = 8239
      \<or> r = 8287 \<or> r = 12288)"

text \<open>\<open>strings.TrimLeftFunc(s, unicode.IsSpace)\<close>: drop leading runes while they are spaces.\<close>

fun trimLeftSpace :: "string \<Rightarrow> string" where
  "trimLeftSpace [] = []"
| "trimLeftSpace (c # cs) =
     (if IsSpace (fst (DecodeRuneInString (c # cs)))
      then trimLeftSpace (drop (snd (DecodeRuneInString (c # cs)) - 1) cs)
      else c # cs)"

text \<open>
  \<open>strings.TrimRightFunc(s, unicode.IsSpace)\<close>: \<open>trimRightSpace s i\<close> is the loop of
  \<open>lastIndexFunc\<close> at index \<open>i\<close>, stepping back one rune at a time over \<open>s[0:i]\<close>; at the
  last rune that is not a space the result keeps the string up to the end of that rune.
\<close>

lemma scanBack_le: "scanBack s n lim \<le> n"
  by (induction n) auto

lemma DecodeLastRuneInString_width:
  assumes "s \<noteq> []"
  shows "0 < snd (DecodeLastRuneInString s)"
proof -
  have "scanBack s (length s - 1) (length s - 4) < length s"
    using assms scanBack_le [of s "length s - 1" "length s - 4"]
    by (cases s) auto
  then show ?thesis
    using assms
    by (auto simp: DecodeLastRuneInString_def Let_def split: prod.splits)
qed

function trimRightSpace :: "string \<Rightarrow> nat \<Rightarrow> string" where
  "trimRightSpace s i =
     (if i = 0 then []
      else
        let (r, size) = DecodeLastRuneInString (take i s) in
        if IsSpace r then trimRightSpace s (i - size)
        else
          let j = i - size in
          if (of_char (s ! j) :: nat) \<ge> 128
          then take (j + snd (DecodeRuneInString (drop j s))) s
          else take (j + 1) s)"
  by pat_completeness auto
termination
proof (relation "measure snd")
  show "wf (measure snd)" by simp
next
  fix s :: string and i :: nat and x :: "rune \<times> nat" and r size
  assume "i \<noteq> 0" and "x = DecodeLastRuneInString (take i s)" and "(r, size) = x"
    and "IsSpace r"
  show "((s, i - size), (s, i)) \<in> measure snd"
  proof (cases "take i s = []")
    case True
    with \<open>x = DecodeLastRuneInString (take i s)\<close> \<open>(r, size) = x\<close> \<open>IsSpace r\<close>
    show ?thesis
      by (simp add: DecodeLastRuneInString_def RuneError_def IsSpace_def)
  next
    case False
    have "size = snd (DecodeLastRuneInString (take i s))"
      using \<open>x = DecodeLastRuneInString (take i s)\<close> \<open>(r, size) = x\<close>
      by (metis snd_conv)
    with DecodeLastRuneInString_width [OF False] \<open>i \<noteq> 0\<close>
    show ?thesis by simp
  qed
qed

text \<open>
  \<open>strings.TrimSpace\<close>: leading and trailing white space removed, as Unicode defines
  it (its ASCII fast path returns the same string).
\<close>

definition TrimSpace :: "string \<Rightarrow> string" where
  "TrimSpace s = (let t = trimLeftSpace s in trimRightSpace t (length t))"

text \<open>
  \<open>strings.Fields\<close>: the maximal runs of runes that are not white space, in order
  (\<open>FieldsFunc\<close> with \<open>unicode.IsSpace\<close>; the second argument is the field being read).
\<close>

fun FieldsLoop :: "string \<Rightarrow> string option \<Rightarrow> string list" where
  "FieldsLoop [] cur = (case cur of None \<Rightarrow> [] | Some f \<Rightarrow> [f])"
| "FieldsLoop (c # cs) cur =
     (let r = fst (DecodeRuneInString (c # cs));
          size = snd (DecodeRuneInString (c # cs))
      in if IsSpace r
         then (case cur of
                 None \<Rightarrow> FieldsLoop (drop (size - 1) cs) None
               | Some f \<Rightarrow> f # FieldsLoop (drop (size - 1) cs) None)
         else FieldsLoop (drop (size - 1) cs)
                (Some ((case cur of None \<Rightarrow> [] | Some f \<Rightarrow> f) @ take size (c # cs))))"

definition Fields :: "string \<Rightarrow> string list" where
  "Fields s = FieldsLoop s None"

text \<open>\<open>strings.HasPrefix\<close> and \<open>strings.TrimPrefix\<close> compare bytes.\<close>

definition HasPrefix :: "string \<Rightarrow> string \<Rightarrow> bool" where
  "HasPrefix s p = prefix p s"

definition TrimPrefix :: "string \<Rightarrow> string \<Rightarrow> string" where
  "TrimPrefix s p = (if HasPrefix s p then drop (length p) s else s)"

section \<open>Package history: the entry\<close>

text \<open>
  \<open>time.Time\<close> is an instant, here the nanoseconds since the Unix epoch; a
  \<open>time.Duration\<close> is a signed 64-bit count of nanoseconds, and \<open>Time.Sub\<close> saturates at
  its bounds.
\<close>

type_synonym Time = int
type_synonym Duration = int

definition maxDuration :: Duration where
  "maxDuration = 2 ^ 63 - 1"

definition minDuration :: Duration where
  "minDuration = - (2 ^ 63)"

definition Second :: Duration where
  "Second = 1000000000"

definition Sub :: "Time \<Rightarrow> Time \<Rightarrow> Duration" where
  "Sub t u =
     (if t - u > maxDuration then maxDuration
      else if t - u < minDuration then minDuration
      else t - u)"

record Entry =
  Number :: int
  Timestamp :: Time
  Command :: string
  HasTime :: bool

section \<open>Deduplication\<close>

record Dedup =
  TimeGap :: Duration

definition NewDedup :: Dedup where
  "NewDedup = \<lparr>TimeGap = 30 * Second\<rparr>"

definition min3 :: "int \<Rightarrow> int \<Rightarrow> int \<Rightarrow> int" where
  "min3 x y z = min x (min y z)"

text \<open>
  \<open>levenshteinDistance\<close> fills a matrix of \<open>len(a)+1\<close> rows and \<open>len(b)+1\<close> columns. The
  three loops of the source are folds over their index ranges; a cell is written with a
  list update.
\<close>

definition initRows :: "string \<Rightarrow> string \<Rightarrow> int list list" where
  "initRows a b =
     foldl (\<lambda>matrix i. matrix[i := (replicate (length b + 1) 0)[0 := int i]])
       (replicate (length a + 1) []) [0..<length a + 1]"

definition initFirstRow :: "int list list \<Rightarrow> int list list" where
  "initFirstRow matrix =
     foldl (\<lambda>matrix j. matrix[0 := (matrix ! 0)[j := int j]])
       matrix [0..<length (matrix ! 0)]"

definition fillCell :: "string \<Rightarrow> string \<Rightarrow> nat \<Rightarrow> int list list \<Rightarrow> nat \<Rightarrow> int list list" where
  "fillCell a b i matrix j =
     (let cost = (if a ! (i - 1) = b ! (j - 1) then 0 else 1) in
      matrix[i := (matrix ! i)[j :=
        min3 (matrix ! (i - 1) ! j + 1)
             (matrix ! i ! (j - 1) + 1)
             (matrix ! (i - 1) ! (j - 1) + cost)]])"

definition fillRow :: "string \<Rightarrow> string \<Rightarrow> int list list \<Rightarrow> nat \<Rightarrow> int list list" where
  "fillRow a b matrix i = foldl (fillCell a b i) matrix [1..<length b + 1]"

definition fillMatrix :: "string \<Rightarrow> string \<Rightarrow> int list list \<Rightarrow> int list list" where
  "fillMatrix a b matrix = foldl (fillRow a b) matrix [1..<length a + 1]"

definition levenshteinDistance :: "string \<Rightarrow> string \<Rightarrow> int" where
  "levenshteinDistance a b =
     (if length a = 0 then int (length b)
      else if length b = 0 then int (length a)
      else fillMatrix a b (initFirstRow (initRows a b)) ! length a ! length b)"

definition isExactDuplicate :: "Entry \<Rightarrow> Entry \<Rightarrow> bool" where
  "isExactDuplicate a b = (TrimSpace (Command a) = TrimSpace (Command b))"

definition hasSignificantGap :: "Dedup \<Rightarrow> Entry \<Rightarrow> Entry \<Rightarrow> bool" where
  "hasSignificantGap d a b =
     (if \<not> HasTime a \<or> \<not> HasTime b then False
      else Sub (Timestamp b) (Timestamp a) > TimeGap d)"

definition isTypoCorrection :: "string \<Rightarrow> string \<Rightarrow> bool" where
  "isTypoCorrection a0 b0 =
     (let a = TrimSpace a0;
          b = TrimSpace b0;
          lenDiff = int (length a) - int (length b);
          lenDiff = (if lenDiff < 0 then - lenDiff else lenDiff)
      in if lenDiff > 5 then False
         else
           let distance = levenshteinDistance a b;
               maxLen = int (length a);
               maxLen = (if int (length b) > maxLen then int (length b) else maxLen);
               threshold = maxLen div 10;
               threshold = (if threshold < 2 then 2 else threshold);
               threshold = (if threshold > 5 then 5 else threshold)
           in distance > 0 \<and> distance \<le> threshold)"

text \<open>
  \<open>strings.SplitN(cmd, "=", 2)\<close> always has a first part: the text before the first
  \<open>=\<close>, or all of it.
\<close>

definition extractExportVar :: "string \<Rightarrow> string" where
  "extractExportVar cmd =
     TrimSpace (takeWhile (\<lambda>c. c \<noteq> CHR ''='') (TrimPrefix cmd ''export ''))"

definition shouldCollapse :: "string \<Rightarrow> string \<Rightarrow> bool" where
  "shouldCollapse a0 b0 =
     (let a = TrimSpace a0; b = TrimSpace b0 in
      if HasPrefix a ''cd '' \<and> HasPrefix b ''cd '' then True
      else if HasPrefix a ''export '' \<and> HasPrefix b ''export '' then
        (let aVar = extractExportVar a; bVar = extractExportVar b in
         if aVar \<noteq> [] \<and> aVar = bVar then True else False)
      else False)"

text \<open>
  The loop of \<open>Process\<close>: \<open>result\<close> is the slice built so far, the list argument the
  entries from index \<open>i\<close> on, so that \<open>entries[i+1]\<close> is the head of the tail.
\<close>

fun ProcessLoop :: "Dedup \<Rightarrow> Entry list \<Rightarrow> Entry list \<Rightarrow> Entry list" where
  "ProcessLoop d result [] = result"
| "ProcessLoop d result (entry # rest) =
     (if TrimSpace (Command entry) = [] then ProcessLoop d result rest
      else if length result = 0 then ProcessLoop d (result @ [entry]) rest
      else
        let prev = result ! (length result - 1) in
        if isExactDuplicate prev entry then
          (if hasSignificantGap d prev entry then ProcessLoop d (result @ [entry]) rest
           else ProcessLoop d result rest)
        else if isTypoCorrection (Command prev) (Command entry) then
          ProcessLoop d (result[length result - 1 := entry]) rest
        else if shouldCollapse (Command prev) (Command entry) then
          ProcessLoop d (result[length result - 1 := entry]) rest
        else if (case rest of [] \<Rightarrow> False
                 | next # _ \<Rightarrow> isTypoCorrection (Command entry) (Command next)) then
          ProcessLoop d result rest
        else ProcessLoop d (result @ [entry]) rest)"

definition Process :: "Dedup \<Rightarrow> Entry list \<Rightarrow> Entry list" where
  "Process d entries = (if length entries = 0 then entries else ProcessLoop d [] entries)"

section \<open>Intent analysis\<close>

record Workflow =
  Name :: string
  Patterns :: "string list"
  Description :: string

record CommandGroup =
  Title :: string
  Description :: string
  Commands :: "Entry list"
  Intent :: string

record IntentAnalyzer =
  workflows :: "Workflow list"
  threshold :: Duration

definition DefaultWorkflows :: "Workflow list" where
  "DefaultWorkflows =
     [\<lparr>Name = ''git-commit'', Patterns = [''git add'', ''git commit'', ''git push''],
        Description = ''Commit and push changes''\<rparr>,
      \<lparr>Name = ''git-branch'', Patterns = [''git checkout'', ''git branch'', ''git switch''],
        Description = ''Branch management''\<rparr>,
      \<lparr>Name = ''git-sync'', Patterns = [''git fetch'', ''git pull'', ''git merge'', ''git rebase''],
        Description = ''Sync with remote''\<rparr>,
      \<lparr>Name = ''docker-build'', Patterns = [''docker build'', ''docker tag'', ''docker push''],
        Description = ''Build and publish container image''\<rparr>,
      \<lparr>Name = ''docker-run'', Patterns = [''docker run'', ''docker exec'', ''docker logs''],
        Description = ''Run and manage containers''\<rparr>,
      \<lparr>Name = ''docker-compose'', Patterns = [''docker-compose'', ''docker compose''],
        Description = ''Manage multi-container application''\<rparr>,
      \<lparr>Name = ''npm-build'', Patterns = [''npm install'', ''npm run build'', ''npm test''],
        Description = ''Install dependencies and build''\<rparr>,
      \<lparr>Name = ''npm-dev'', Patterns = [''npm install'', ''npm run dev'', ''npm start''],
        Description = ''Set up development environment''\<rparr>,
      \<lparr>Name = ''go-build'', Patterns = [''go build'', ''go test'', ''go run''],
        Description = ''Build and test Go application''\<rparr>,
      \<lparr>Name = ''go-mod'', Patterns = [''go mod init'', ''go mod tidy'', ''go get''],
        Description = ''Manage Go modules''\<rparr>,
      \<lparr>Name = ''python-venv'', Patterns = [''python -m venv'', ''source'', ''pip install''],
        Description = ''Set up Python virtual environment''\<rparr>,
      \<lparr>Name = ''kubectl-deploy'', Patterns = [''kubectl apply'', ''kubectl rollout'', ''kubectl get''],
        Description = ''Deploy to Kubernetes''\<rparr>,
      \<lparr>Name = ''kubectl-debug'', Patterns = [''kubectl describe'', ''kubectl logs'', ''kubectl exec''],
        Description = ''Debug Kubernetes resources''\<rparr>,
      \<lparr>Name = ''terraform'', Patterns = [''terraform init'', ''terraform plan'', ''terraform apply''],
        Description = ''Provision infrastructure''\<rparr>,
      \<lparr>Name = ''ssh-scp'', Patterns = [''ssh'', ''scp'', ''rsync''],
        Description = ''Remote file operations''\<rparr>]"

definition NewIntentAnalyzer :: IntentAnalyzer where
  "NewIntentAnalyzer = \<lparr>workflows = DefaultWorkflows, threshold = 60 * Second\<rparr>"

definition inferIntent :: "IntentAnalyzer \<Rightarrow> string \<Rightarrow> string" where
  "inferIntent a command =
     (case find (\<lambda>workflow. list_ex (\<lambda>pattern. HasPrefix command pattern) (Patterns workflow))
             (workflows a) of
        Some workflow \<Rightarrow> Workflow.Name workflow
      | None \<Rightarrow> [])"

definition hasTimeGap :: "IntentAnalyzer \<Rightarrow> Entry \<Rightarrow> Entry \<Rightarrow> bool" where
  "hasTimeGap a prev cur =
     (if \<not> HasTime prev \<or> \<not> HasTime cur then False
      else Sub (Timestamp cur) (Timestamp prev) > threshold a)"

definition extractTool :: "string \<Rightarrow> string" where
  "extractTool command =
     (let parts = Fields command in
      if length parts = 0 then []
      else
        let tool = parts ! 0;
            tool = (if tool = ''sudo'' \<and> length parts > 1 then parts ! 1 else tool);
            tool = (if tool = ''time'' \<or> tool = ''nice'' \<or> tool = ''nohup''
                    then (if length parts > 1 then parts ! 1 else tool) else tool)
        in tool)"

definition families :: "string list list" where
  "families =
     [[''git'', ''gh''],
      [''docker'', ''docker-compose''],
      [''kubectl'', ''helm'', ''k9s''],
      [''npm'', ''npx'', ''yarn'', ''pnpm''],
      [''go'', ''gofmt'', ''golangci-lint''],
      [''python'', ''pip'', ''python3'', ''pip3''],
      [''terraform'', ''tf''],
      [''aws'', ''awscli''],
      [''gcloud'', ''gsutil''],
      [''az'', ''azure'']]"

definition areRelatedTools :: "string \<Rightarrow> string \<Rightarrow> bool" where
  "areRelatedTools a b =
     (if a = b then True
      else list_ex (\<lambda>family. list_ex (\<lambda>tool. a = tool) family \<and> list_ex (\<lambda>tool. b = tool) family)
             families)"

text \<open>
  \<open>generateTitle\<close> counts the tools in a map and then ranges over the map. Go leaves the
  order in which \<open>range\<close> visits a map's keys to the runtime: it is the first argument
  here, a list of the keys (\<open>rangeOrder\<close> says that it visits every key once).
\<close>

definition countTools :: "Entry list \<Rightarrow> (string \<rightharpoonup> int)" where
  "countTools commands =
     foldl (\<lambda>tools cmd.
              let tool = extractTool (Command cmd) in
              if tool \<noteq> [] then tools(tool \<mapsto> (case tools tool of None \<Rightarrow> 0 | Some n \<Rightarrow> n) + 1)
              else tools)
       Map.empty commands"

definition rangeOrder :: "string list \<Rightarrow> (string \<rightharpoonup> int) \<Rightarrow> bool" where
  "rangeOrder order tools = (distinct order \<and> set order = dom tools)"

definition mostCommon :: "string list \<Rightarrow> (string \<rightharpoonup> int) \<Rightarrow> string \<times> int" where
  "mostCommon order tools =
     foldl (\<lambda>(primaryTool, maxCount) tool.
              case tools tool of
                Some count \<Rightarrow> if count > maxCount then (tool, count) else (primaryTool, maxCount)
              | None \<Rightarrow> (primaryTool, maxCount))
       ([], 0) order"

definition titleOf :: "string \<Rightarrow> string" where
  "titleOf primaryTool =
     (if primaryTool = ''git'' then ''Git operations''
      else if primaryTool = ''docker'' \<or> primaryTool = ''docker-compose'' then ''Docker operations''
      else if primaryTool = ''kubectl'' \<or> primaryTool = ''helm'' then ''Kubernetes operations''
      else if primaryTool = ''npm'' \<or> primaryTool = ''yarn'' \<or> primaryTool = ''pnpm''
        then ''Node.js package operations''
      else if primaryTool = ''go'' then ''Go operations''
      else if primaryTool = ''python'' \<or> primaryTool = ''pip'' \<or> primaryTool = ''python3''
        then ''Python operations''
      else if primaryTool = ''terraform'' \<or> primaryTool = ''tf'' then ''Terraform operations''
      else if primaryTool = ''ssh'' \<or> primaryTool = ''scp'' \<or> primaryTool = ''rsync''
        then ''Remote operations''
      else if primaryTool = ''curl'' \<or> primaryTool = ''wget'' then ''HTTP requests''
      else if primaryTool = ''cd'' \<or> primaryTool = ''ls'' \<or> primaryTool = ''mkdir''
              \<or> primaryTool = ''rm'' \<or> primaryTool = ''cp'' \<or> primaryTool = ''mv''
        then ''File system operations''
      else if primaryTool \<noteq> [] then primaryTool @ '' operations''
      else ''Shell commands'')"

definition generateTitle :: "string list \<Rightarrow> Entry list \<Rightarrow> string" where
  "generateTitle order commands =
     (if length commands = 0 then ''Commands''
      else titleOf (fst (mostCommon order (countTools commands))))"

definition generateDescription :: "Entry list \<Rightarrow> string" where
  "generateDescription commands =
     (if length commands = 0 then [] else if length commands = 1 then [] else [])"

text \<open>
  \<open>finalizeGroup\<close> and \<open>Analyze\<close> take the runtime's choice of order as a function of the
  map that is ranged over.
\<close>

definition finalizeGroup ::
  "((string \<rightharpoonup> int) \<Rightarrow> string list) \<Rightarrow> IntentAnalyzer \<Rightarrow> CommandGroup \<Rightarrow> CommandGroup" where
  "finalizeGroup ord a grp =
     (let title =
            (if Intent grp \<noteq> [] then
               (case find (\<lambda>workflow. Workflow.Name workflow = Intent grp) (workflows a) of
                  Some workflow \<Rightarrow> Workflow.Description workflow
                | None \<Rightarrow> Title grp)
             else Title grp);
          title =
            (if title = []
             then generateTitle (ord (countTools (Commands grp))) (Commands grp)
             else title)
      in grp\<lparr>Title := title, Description := generateDescription (Commands grp)\<rparr>)"

text \<open>
  The loop of \<open>Analyze\<close> at index \<open>i\<close>, with the groups closed so far and the current
  grp (\<open>None\<close> is the nil pointer).
\<close>

function AnalyzeLoop ::
  "((string \<rightharpoonup> int) \<Rightarrow> string list) \<Rightarrow> IntentAnalyzer \<Rightarrow> Entry list \<Rightarrow> nat
     \<Rightarrow> CommandGroup list \<Rightarrow> CommandGroup option \<Rightarrow> CommandGroup list \<times> CommandGroup option" where
  "AnalyzeLoop ord a entries i groups currentGroup =
     (if i < length entries then
        let entry = entries ! i;
            tool = extractTool (Command entry);
            intent = inferIntent a (Command entry)
        in case currentGroup of
             None \<Rightarrow>
               AnalyzeLoop ord a entries (i + 1) groups
                 (Some \<lparr>Title = [], Description = [], Commands = [entry], Intent = intent\<rparr>)
           | Some grp \<Rightarrow>
               let startNewGroup =
                     (if i > 0 then
                        let prevEntry = entries ! (i - 1);
                            prevTool = extractTool (Command prevEntry)
                        in \<not> areRelatedTools prevTool tool
                           \<or> hasTimeGap a prevEntry entry
                           \<or> (Intent grp \<noteq> [] \<and> Intent grp \<noteq> intent)
                      else False)
               in if startNewGroup then
                    AnalyzeLoop ord a entries (i + 1) (groups @ [finalizeGroup ord a grp])
                      (Some \<lparr>Title = [], Description = [], Commands = [entry], Intent = intent\<rparr>)
                  else
                    AnalyzeLoop ord a entries (i + 1) groups
                      (Some (grp\<lparr>Commands := Commands grp @ [entry],
                                   Intent := (if intent \<noteq> [] \<and> Intent grp = []
                                              then intent else Intent grp)\<rparr>))
      else (groups, currentGroup))"
  by pat_completeness auto
termination
  by (relation "measure (\<lambda>(ord, a, entries, i, groups, currentGroup). length entries - i)") auto

definition Analyze ::
  "((string \<rightharpoonup> int) \<Rightarrow> string list) \<Rightarrow> IntentAnalyzer \<Rightarrow> Entry list \<Rightarrow> CommandGroup list" where
  "Analyze ord a entries =
     (if length entries = 0 then []
      else
        case AnalyzeLoop ord a entries 0 [] None of
          (groups, None) \<Rightarrow> groups
        | (groups, Some grp) \<Rightarrow> groups @ [finalizeGroup ord a grp])"

section \<open>Properties of the deduplicator\<close>


lemma update_last_conv: "result \<noteq> [] \<Longrightarrow> result[length result - 1 := e] = butlast result @ [e]"
  by (induction result rule: rev_induct) (auto simp: list_update_append)

lemma subseq_snoc_both: "subseq xs ys \<Longrightarrow> subseq (xs @ [e]) (ys @ [e])"
  by (simp add: list_emb_append_mono)

lemma subseq_butlast: "subseq (butlast xs) xs"
  by (induction xs) auto

lemma subseq_butlast_snoc:
  assumes "subseq xs ys"
  shows "subseq (butlast xs @ [e]) (ys @ [e])"
proof -
  have "subseq (butlast xs) ys"
    using subseq_butlast assms by (rule subseq_order.trans)
  then show ?thesis by (rule subseq_snoc_both)
qed

lemma ProcessLoop_step_cases:
  "ProcessLoop d result (entry # rest) = ProcessLoop d result rest
   \<or> ProcessLoop d result (entry # rest) = ProcessLoop d (result @ [entry]) rest
   \<or> (result \<noteq> [] \<and>
       ProcessLoop d result (entry # rest) = ProcessLoop d (result[length result - 1 := entry]) rest)"
  by (simp add: Let_def)

lemma ProcessLoop_subseq:
  "subseq result seen \<Longrightarrow> subseq (ProcessLoop d result rest) (seen @ rest)"
proof (induction rest arbitrary: result seen)
  case Nil
  then show ?case by simp
next
  case (Cons entry rest)
  have split: "seen @ entry # rest = (seen @ [entry]) @ rest" by simp
  from ProcessLoop_step_cases [of d result entry rest]
  consider (skip) "ProcessLoop d result (entry # rest) = ProcessLoop d result rest"
    | (app) "ProcessLoop d result (entry # rest) = ProcessLoop d (result @ [entry]) rest"
    | (repl) "result \<noteq> []"
        "ProcessLoop d result (entry # rest) = ProcessLoop d (result[length result - 1 := entry]) rest"
    by blast
  then show ?case
  proof cases
    case skip
    have "subseq result (seen @ [entry])"
      using Cons.prems by (rule subseq_rev_drop_many)
    from Cons.IH [OF this] show ?thesis
      unfolding skip split .
  next
    case app
    have "subseq (result @ [entry]) (seen @ [entry])"
      using Cons.prems by (rule subseq_snoc_both)
    from Cons.IH [OF this] show ?thesis
      unfolding app split .
  next
    case repl
    have "subseq (butlast result @ [entry]) (seen @ [entry])"
      using Cons.prems by (rule subseq_butlast_snoc)
    from Cons.IH [OF this] show ?thesis
      unfolding repl(2) split update_last_conv [OF repl(1)] .
  qed
qed

text \<open>
  C8. For every input, the output of \<open>Dedup.Process\<close> is a subsequence of the input:
  every output entry is an input entry, the input order is kept, and the output is no
  longer than the input.
\<close>

theorem Process_subseq:
  "subseq (Process d entries) entries
   \<and> set (Process d entries) \<subseteq> set entries
   \<and> length (Process d entries) \<le> length entries"
proof -
  have s: "subseq (Process d entries) entries"
    using ProcessLoop_subseq [of "[]" "[]" d entries] by (simp add: Process_def)
  then show ?thesis
    using list_emb_set [of "(=)" "Process d entries" entries]
      list_emb_length [of "(=)" "Process d entries" entries]
    by auto
qed

lemma TrimSpace_ls: "TrimSpace ''ls'' = ''ls''"
  by (simp add: TrimSpace_def DecodeLastRuneInString_def IsSpace_def Let_def)

lemma TrimSpace_kubectl: "TrimSpace ''kubectl get pods'' = ''kubectl get pods''"
  by (simp add: TrimSpace_def DecodeLastRuneInString_def IsSpace_def Let_def)

lemma Sub_small: "minDuration \<le> t - u \<Longrightarrow> t - u \<le> maxDuration \<Longrightarrow> Sub t u = t - u"
  by (simp add: Sub_def)

text \<open>
  C5, as the code has it. Three \<open>ls\<close> entries two seconds apart, with a \<open>TimeGap\<close> of
  thirty seconds, collapse to exactly one entry, and the survivor is the first occurrence:
  a duplicate without a significant gap is skipped, it never replaces the entry kept.
\<close>

theorem quick_duplicates_keep_first:
  "Process \<lparr>TimeGap = 30 * Second\<rparr>
     [\<lparr>Number = n1, Timestamp = t0, Command = ''ls'', HasTime = True\<rparr>,
      \<lparr>Number = n2, Timestamp = t0 + 2 * Second, Command = ''ls'', HasTime = True\<rparr>,
      \<lparr>Number = n3, Timestamp = t0 + 4 * Second, Command = ''ls'', HasTime = True\<rparr>]
   = [\<lparr>Number = n1, Timestamp = t0, Command = ''ls'', HasTime = True\<rparr>]"
  by (simp add: Process_def TrimSpace_ls isExactDuplicate_def hasSignificantGap_def
      Sub_def Second_def maxDuration_def minDuration_def)

text \<open>
  C5, as stated, says that the survivor is the last occurrence (the one at \<open>t0 + 4s\<close>).
  At \<open>t0 = 0\<close> the result is not that entry.
\<close>

theorem quick_duplicates_not_last:
  "Process \<lparr>TimeGap = 30 * Second\<rparr>
     [\<lparr>Number = 1, Timestamp = 0, Command = ''ls'', HasTime = True\<rparr>,
      \<lparr>Number = 2, Timestamp = 2 * Second, Command = ''ls'', HasTime = True\<rparr>,
      \<lparr>Number = 3, Timestamp = 4 * Second, Command = ''ls'', HasTime = True\<rparr>]
   \<noteq> [\<lparr>Number = 3, Timestamp = 4 * Second, Command = ''ls'', HasTime = True\<rparr>]"
  by (simp add: Process_def TrimSpace_ls isExactDuplicate_def hasSignificantGap_def
      Sub_def Second_def maxDuration_def minDuration_def)

text \<open>
  C7. In the loop of \<open>Dedup.Process\<close>, an entry (not blank) whose trimmed command equals
  the trimmed command of the last entry of the result is dropped, unless both entries have
  timestamps and the time elapsed between them (\<open>Time.Sub\<close>) exceeds \<open>TimeGap\<close>, in which
  case it is appended; an entry without a timestamp never gives a gap signal; and three
  \<open>kubectl get pods\<close> entries 45 seconds apart, with a \<open>TimeGap\<close> of 30 seconds, are all kept.
\<close>

theorem exact_duplicate_rule:
  "(result \<noteq> [] \<and> TrimSpace (Command entry) \<noteq> []
      \<and> TrimSpace (Command entry) = TrimSpace (Command (last result))
    \<longrightarrow> ProcessLoop d result (entry # rest) =
        ProcessLoop d
          (if HasTime (last result) \<and> HasTime entry
              \<and> Sub (Timestamp entry) (Timestamp (last result)) > TimeGap d
           then result @ [entry] else result) rest)
   \<and> (\<not> HasTime a \<or> \<not> HasTime b \<longrightarrow> \<not> hasSignificantGap d a b)
   \<and> Process \<lparr>TimeGap = 30 * Second\<rparr>
        [\<lparr>Number = n1, Timestamp = t0, Command = ''kubectl get pods'', HasTime = True\<rparr>,
         \<lparr>Number = n2, Timestamp = t0 + 45 * Second, Command = ''kubectl get pods'', HasTime = True\<rparr>,
         \<lparr>Number = n3, Timestamp = t0 + 90 * Second, Command = ''kubectl get pods'', HasTime = True\<rparr>]
      = [\<lparr>Number = n1, Timestamp = t0, Command = ''kubectl get pods'', HasTime = True\<rparr>,
         \<lparr>Number = n2, Timestamp = t0 + 45 * Second, Command = ''kubectl get pods'', HasTime = True\<rparr>,
         \<lparr>Number = n3, Timestamp = t0 + 90 * Second, Command = ''kubectl get pods'', HasTime = True\<rparr>]"
proof (intro conjI impI)
  assume h: "result \<noteq> [] \<and> TrimSpace (Command entry) \<noteq> []
      \<and> TrimSpace (Command entry) = TrimSpace (Command (last result))"
  then have l: "result ! (length result - 1) = last result"
    by (simp add: last_conv_nth)
  show "ProcessLoop d result (entry # rest) =
        ProcessLoop d
          (if HasTime (last result) \<and> HasTime entry
              \<and> Sub (Timestamp entry) (Timestamp (last result)) > TimeGap d
           then result @ [entry] else result) rest"
    using h l by (auto simp: isExactDuplicate_def hasSignificantGap_def Let_def)
next
  assume "\<not> HasTime a \<or> \<not> HasTime b"
  then show "\<not> hasSignificantGap d a b"
    by (simp add: hasSignificantGap_def)
next
  show "Process \<lparr>TimeGap = 30 * Second\<rparr>
        [\<lparr>Number = n1, Timestamp = t0, Command = ''kubectl get pods'', HasTime = True\<rparr>,
         \<lparr>Number = n2, Timestamp = t0 + 45 * Second, Command = ''kubectl get pods'', HasTime = True\<rparr>,
         \<lparr>Number = n3, Timestamp = t0 + 90 * Second, Command = ''kubectl get pods'', HasTime = True\<rparr>]
      = [\<lparr>Number = n1, Timestamp = t0, Command = ''kubectl get pods'', HasTime = True\<rparr>,
         \<lparr>Number = n2, Timestamp = t0 + 45 * Second, Command = ''kubectl get pods'', HasTime = True\<rparr>,
         \<lparr>Number = n3, Timestamp = t0 + 90 * Second, Command = ''kubectl get pods'', HasTime = True\<rparr>]"
    by (simp add: Process_def TrimSpace_kubectl isExactDuplicate_def hasSignificantGap_def
        Sub_def Second_def maxDuration_def minDuration_def)
qed


text \<open>Instances of the theorems above at concrete inputs.\<close>

theorem Process_subseq_witness:
  "subseq (Process NewDedup
      [\<lparr>Number = 1, Timestamp = 0, Command = ''ls'', HasTime = False\<rparr>,
       \<lparr>Number = 2, Timestamp = 0, Command = ''ls'', HasTime = False\<rparr>])
     [\<lparr>Number = 1, Timestamp = 0, Command = ''ls'', HasTime = False\<rparr>,
      \<lparr>Number = 2, Timestamp = 0, Command = ''ls'', HasTime = False\<rparr>]
   \<and> Process NewDedup
      [\<lparr>Number = 1, Timestamp = 0, Command = ''ls'', HasTime = False\<rparr>,
       \<lparr>Number = 2, Timestamp = 0, Command = ''ls'', HasTime = False\<rparr>]
     = [\<lparr>Number = 1, Timestamp = 0, Command = ''ls'', HasTime = False\<rparr>]"
  using Process_subseq [of NewDedup
      "[\<lparr>Number = 1, Timestamp = 0, Command = ''ls'', HasTime = False\<rparr>,
        \<lparr>Number = 2, Timestamp = 0, Command = ''ls'', HasTime = False\<rparr>]"]
  by (simp add: Process_def TrimSpace_ls isExactDuplicate_def hasSignificantGap_def)

theorem quick_duplicates_keep_first_witness:
  "Process \<lparr>TimeGap = 30 * Second\<rparr>
     [\<lparr>Number = 10, Timestamp = 1700000000 * Second, Command = ''ls'', HasTime = True\<rparr>,
      \<lparr>Number = 11, Timestamp = 1700000000 * Second + 2 * Second, Command = ''ls'', HasTime = True\<rparr>,
      \<lparr>Number = 12, Timestamp = 1700000000 * Second + 4 * Second, Command = ''ls'', HasTime = True\<rparr>]
   = [\<lparr>Number = 10, Timestamp = 1700000000 * Second, Command = ''ls'', HasTime = True\<rparr>]"
  using quick_duplicates_keep_first [of 10 "1700000000 * Second" 11 12] .

theorem exact_duplicate_rule_witness:
  "ProcessLoop \<lparr>TimeGap = 30 * Second\<rparr>
     [\<lparr>Number = 1, Timestamp = 0, Command = ''ls'', HasTime = True\<rparr>]
     [\<lparr>Number = 2, Timestamp = 2 * Second, Command = '' ls  '', HasTime = True\<rparr>]
   = [\<lparr>Number = 1, Timestamp = 0, Command = ''ls'', HasTime = True\<rparr>]
   \<and> ProcessLoop \<lparr>TimeGap = 30 * Second\<rparr>
     [\<lparr>Number = 1, Timestamp = 0, Command = ''ls'', HasTime = True\<rparr>]
     [\<lparr>Number = 2, Timestamp = 31 * Second, Command = '' ls  '', HasTime = True\<rparr>]
   = [\<lparr>Number = 1, Timestamp = 0, Command = ''ls'', HasTime = True\<rparr>,
      \<lparr>Number = 2, Timestamp = 31 * Second, Command = '' ls  '', HasTime = True\<rparr>]
   \<and> \<not> hasSignificantGap \<lparr>TimeGap = 30 * Second\<rparr>
       \<lparr>Number = 1, Timestamp = 0, Command = ''ls'', HasTime = True\<rparr>
       \<lparr>Number = 2, Timestamp = 31 * Second, Command = ''ls'', HasTime = False\<rparr>"
proof -
  have t: "TrimSpace '' ls  '' = ''ls''"
    by (simp add: TrimSpace_def DecodeLastRuneInString_def IsSpace_def Let_def)
  note r = exact_duplicate_rule [where result = "[\<lparr>Number = 1, Timestamp = 0, Command = ''ls'', HasTime = True\<rparr>]"
      and d = "\<lparr>TimeGap = 30 * Second\<rparr>" and rest = "[]"]
  show ?thesis
    using r [where entry = "\<lparr>Number = 2, Timestamp = 2 * Second, Command = '' ls  '', HasTime = True\<rparr>"
        and a = "\<lparr>Number = 1, Timestamp = 0, Command = ''ls'', HasTime = True\<rparr>"
        and b = "\<lparr>Number = 2, Timestamp = 31 * Second, Command = ''ls'', HasTime = False\<rparr>"]
      r [where entry = "\<lparr>Number = 2, Timestamp = 31 * Second, Command = '' ls  '', HasTime = True\<rparr>"]
    by (simp add: t TrimSpace_ls Sub_def Second_def maxDuration_def minDuration_def
        del: ProcessLoop.simps(2))
qed

end
